theory Spec2Isabelle
  imports Main
begin

section \<open>Documents and collections\<close>

text \<open>
  The backend keeps four MongoDB collections (users, notices, comments, notifications)
  and reaches them through Mongoose models. A collection is modelled as the list of its
  documents in insertion order, a document as a record holding the schema's fields that
  the route handlers read or write, and an ObjectId as a natural number. Fields that no
  modelled handler reads (password, attachments, scheduledDate, createdAt, ...) are left
  out of the records.
\<close>

type_synonym oid = nat
type_synonym time = nat

text \<open>Modelled from the spec: models/User.js is not among the source files. The fields
  are those of the spec's data model (identity, role, department, year, active flag) and
  the name and e-mail address that the routes read.\<close>

record user =
  u_id :: oid
  u_name :: string
  u_email :: string
  u_role :: string
  u_department :: string
  u_year :: "string option"
  u_isActive :: bool

text \<open>models/Notice.js; each entry of \<open>views\<close> and \<open>acknowledged\<close> is a user reference
  with the time the schema default \<open>Date.now\<close> gave it.\<close>

record notice =
  n_id :: oid
  n_title :: string
  n_content :: string
  n_category :: string
  n_department :: string
  n_targetYear :: "string option"
  n_author :: oid
  n_priority :: string
  n_status :: string
  n_views :: "(oid \<times> time) list"
  n_acknowledged :: "(oid \<times> time) list"
  n_isPinned :: bool
  n_isArchived :: bool

text \<open>models/Comment.js.\<close>

record comment =
  c_id :: oid
  c_notice :: oid
  c_author :: oid
  c_content :: string
  c_parentComment :: "oid option"
  c_replies :: "oid list"

text \<open>models/Notification.js.\<close>

record notification =
  nt_id :: oid
  nt_user :: oid
  nt_type :: string
  nt_message :: string
  nt_relatedNotice :: "oid option"
  nt_relatedComment :: "oid option"
  nt_isRead :: bool
  nt_readAt :: "time option"

text \<open>The database; \<open>next_id\<close> is the source of fresh ObjectIds for new documents.\<close>

record store =
  users :: "user list"
  notices :: "notice list"
  comments :: "comment list"
  notifications :: "notification list"
  next_id :: oid

text \<open>Mongoose operations on a collection, by the key that reads a document's \<open>_id\<close>:
  \<open>findById\<close>, \<open>doc.save()\<close> of a loaded document, \<open>doc.deleteOne()\<close>.\<close>

definition findById :: "('d \<Rightarrow> oid) \<Rightarrow> 'd list \<Rightarrow> oid \<Rightarrow> 'd option" where
  "findById key ds i = find (\<lambda>d. key d = i) ds"

definition save_doc :: "('d \<Rightarrow> oid) \<Rightarrow> 'd \<Rightarrow> 'd list \<Rightarrow> 'd list" where
  "save_doc key d ds = map (\<lambda>x. if key x = key d then d else x) ds"

definition deleteOne :: "('d \<Rightarrow> oid) \<Rightarrow> oid \<Rightarrow> 'd list \<Rightarrow> 'd list" where
  "deleteOne key i ds = filter (\<lambda>x. key x \<noteq> i) ds"

definition deleteMany :: "('d \<Rightarrow> bool) \<Rightarrow> 'd list \<Rightarrow> 'd list" where
  "deleteMany P ds = filter (\<lambda>x. \<not> P x) ds"

section \<open>Requests and responses\<close>

text \<open>
  An id arriving in a URL or a JSON body is a string; it either parses as an ObjectId or
  it does not (\<open>mongoose.Types.ObjectId.isValid\<close>, and the cast Mongoose performs in a
  query). The Authorization header carries no token, a token that \<open>jwt.verify\<close> rejects,
  or a token whose payload names a user id.
\<close>

datatype reqid = Malformed | ObjId oid

datatype bearer = NoToken | BadToken | Token oid

datatype payload = NoData | CommentData comment | NoticeData notice | AckCount nat

record response =
  code :: nat
  success :: bool
  message :: string
  payload :: payload

definition reply :: "nat \<Rightarrow> bool \<Rightarrow> string \<Rightarrow> response" where
  "reply c ok m = \<lparr>code = c, success = ok, message = m, payload = NoData\<rparr>"

section \<open>middleware/auth.js\<close>

definition authenticate :: "store \<Rightarrow> bearer \<Rightarrow> response + user" where
  "authenticate s b =
     (case b of
        NoToken \<Rightarrow> Inl (reply 401 False ''Access denied. No token provided.'')
      | BadToken \<Rightarrow> Inl (reply 401 False ''Invalid token.'')
      | Token i \<Rightarrow>
          (case findById u_id (users s) i of
             None \<Rightarrow> Inl (reply 401 False ''Invalid token or user not active.'')
           | Some u \<Rightarrow>
               if \<not> u_isActive u
               then Inl (reply 401 False ''Invalid token or user not active.'')
               else Inr u))"

definition isAdminOrFaculty :: "user \<Rightarrow> response option" where
  "isAdminOrFaculty u =
     (if u_role u \<noteq> ''admin'' \<and> u_role u \<noteq> ''faculty''
      then Some (reply 403 False ''Access denied. Admin or Faculty only.'')
      else None)"

section \<open>routes/notifications.js\<close>

text \<open>\<open>Notification.findOne({_id: req.params.id, user: req.user._id})\<close>; an id that does
  not cast to an ObjectId makes the query throw, which the handler's catch turns into 500.\<close>

definition findOne_notification :: "store \<Rightarrow> oid \<Rightarrow> oid \<Rightarrow> notification option" where
  "findOne_notification s i uid =
     find (\<lambda>n. nt_id n = i \<and> nt_user n = uid) (notifications s)"

text \<open>PUT /notifications/:id/read\<close>

definition mark_read :: "time \<Rightarrow> store \<Rightarrow> bearer \<Rightarrow> reqid \<Rightarrow> store \<times> response" where
  "mark_read now s b pid =
     (case authenticate s b of
        Inl r \<Rightarrow> (s, r)
      | Inr u \<Rightarrow>
          (case pid of
             Malformed \<Rightarrow> (s, reply 500 False ''Failed to mark notification as read'')
           | ObjId i \<Rightarrow>
               (case findOne_notification s i (u_id u) of
                  None \<Rightarrow> (s, reply 404 False ''Notification not found'')
                | Some n \<Rightarrow>
                    (s\<lparr>notifications :=
                         save_doc nt_id (n\<lparr>nt_isRead := True, nt_readAt := Some now\<rparr>)
                           (notifications s)\<rparr>,
                     reply 200 True ''Notification marked as read''))))"

text \<open>DELETE /notifications/:id\<close>

definition delete_notification :: "store \<Rightarrow> bearer \<Rightarrow> reqid \<Rightarrow> store \<times> response" where
  "delete_notification s b pid =
     (case authenticate s b of
        Inl r \<Rightarrow> (s, r)
      | Inr u \<Rightarrow>
          (case pid of
             Malformed \<Rightarrow> (s, reply 500 False ''Failed to delete notification'')
           | ObjId i \<Rightarrow>
               (case findOne_notification s i (u_id u) of
                  None \<Rightarrow> (s, reply 404 False ''Notification not found'')
                | Some n \<Rightarrow>
                    (s\<lparr>notifications := deleteOne nt_id (nt_id n) (notifications s)\<rparr>,
                     reply 200 True ''Notification deleted''))))"

section \<open>JavaScript values\<close>

text \<open>
  A field of a JSON body or of the query string is absent (\<open>None\<close>) or a string. The
  handlers test such fields for truthiness (\<open>if (x)\<close>, \<open>x || d\<close>): an absent field and
  the empty string are falsy. A string is the list of the bytes of its UTF-8 encoding.
  \<open>String.prototype.trim\<close> and the schema option \<open>trim: true\<close> strip the white space
  and line terminators of ECMAScript at both ends: U+0009 to U+000D, U+0020, U+00A0,
  U+1680, U+2000 to U+200A, U+2028, U+2029, U+202F, U+205F, U+3000 and U+FEFF.
\<close>

definition given :: "string option \<Rightarrow> string option" where
  "given v = (case v of None \<Rightarrow> None | Some x \<Rightarrow> if x = [] then None else Some x)"

definition truthy :: "string option \<Rightarrow> bool" where
  "truthy v = (given v \<noteq> None)"

definition or_else :: "string option \<Rightarrow> string \<Rightarrow> string" where
  "or_else v d = (case given v of None \<Rightarrow> d | Some x \<Rightarrow> x)"

definition text_of :: "string option \<Rightarrow> string" where
  "text_of v = (case v of None \<Rightarrow> ''undefined'' | Some x \<Rightarrow> x)"

definition js_white_space :: "string list" where
  "js_white_space =
     [[CHR 0x09], [CHR 0x0A], [CHR 0x0B], [CHR 0x0C], [CHR 0x0D], [CHR 0x20],
      [CHR 0xC2, CHR 0xA0],
      [CHR 0xE1, CHR 0x9A, CHR 0x80],
      [CHR 0xE2, CHR 0x80, CHR 0x80], [CHR 0xE2, CHR 0x80, CHR 0x81],
      [CHR 0xE2, CHR 0x80, CHR 0x82], [CHR 0xE2, CHR 0x80, CHR 0x83],
      [CHR 0xE2, CHR 0x80, CHR 0x84], [CHR 0xE2, CHR 0x80, CHR 0x85],
      [CHR 0xE2, CHR 0x80, CHR 0x86], [CHR 0xE2, CHR 0x80, CHR 0x87],
      [CHR 0xE2, CHR 0x80, CHR 0x88], [CHR 0xE2, CHR 0x80, CHR 0x89],
      [CHR 0xE2, CHR 0x80, CHR 0x8A],
      [CHR 0xE2, CHR 0x80, CHR 0xA8], [CHR 0xE2, CHR 0x80, CHR 0xA9],
      [CHR 0xE2, CHR 0x80, CHR 0xAF],
      [CHR 0xE2, CHR 0x81, CHR 0x9F],
      [CHR 0xE3, CHR 0x80, CHR 0x80],
      [CHR 0xEF, CHR 0xBB, CHR 0xBF]]"

text \<open>\<open>strip_start ws x\<close> removes from the front of \<open>x\<close> every leading occurrence of
  one of the sequences \<open>ws\<close>.\<close>

function strip_start :: "string list \<Rightarrow> string \<Rightarrow> string" where
  "strip_start ws x =
     (case find (\<lambda>w. w \<noteq> [] \<and> take (length w) x = w) ws of
        None \<Rightarrow> x
      | Some w \<Rightarrow> strip_start ws (drop (length w) x))"
  by pat_completeness auto
termination
proof (relation "measure (\<lambda>(ws, x). length x)")
  show "wf (measure (\<lambda>(ws, x). length x))"
    by simp
next
  fix ws :: "string list" and x w :: string
  assume "find (\<lambda>w. w \<noteq> [] \<and> take (length w) x = w) ws = Some w"
  then have w: "w \<noteq> []" "take (length w) x = w"
    by (auto simp: find_Some_iff)
  then have "x \<noteq> []"
    by auto
  with w(1) show "((ws, drop (length w) x), (ws, x)) \<in> measure (\<lambda>(ws, x). length x)"
    by simp
qed

declare strip_start.simps [simp del]

definition trim :: "string \<Rightarrow> string" where
  "trim x = rev (strip_start (map rev js_white_space) (rev (strip_start js_white_space x)))"

section \<open>The acting user of the comment and notice routes\<close>

text \<open>
  POST /comments, DELETE /comments/:id and POST /notices do not run the
  \<open>authenticate\<close> middleware. They look the token's user up themselves and, outside
  production, fall back to a development user found by e-mail or created on the spot.
  \<open>production\<close> is \<open>process.env.NODE_ENV === 'production'\<close>. Saving the new user runs
  the validators of models/User.js, which is not among the source files; they are the
  parameter \<open>user_validates\<close>. A save that throws takes the handler to its catch block:
  the result \<open>None\<close>.
\<close>

record env =
  production :: bool
  user_validates :: "user \<Rightarrow> bool"

record dev_fields =
  devAuthorEmail :: "string option"
  devAuthorName :: "string option"
  devAuthorRole :: "string option"
  devAuthorDepartment :: "string option"
  devAuthorYear :: "string option"

definition token_user :: "store \<Rightarrow> bearer \<Rightarrow> user option" where
  "token_user s b = (case b of Token i \<Rightarrow> findById u_id (users s) i | _ \<Rightarrow> None)"

definition save_new_user :: "env \<Rightarrow> store \<Rightarrow> user \<Rightarrow> (store \<times> user option) option" where
  "save_new_user e s u =
     (if user_validates e u
      then Some (s\<lparr>users := users s @ [u], next_id := Suc (next_id s)\<rparr>, Some u)
      else None)"

text \<open>routes/comments.js, lines 72-114 (repeated at 254-295 and 346-387).\<close>

definition comment_author ::
  "env \<Rightarrow> store \<Rightarrow> bearer \<Rightarrow> 'a dev_fields_scheme \<Rightarrow> (store \<times> user option) option" where
  "comment_author e s b body =
     (case token_user s b of
        Some u \<Rightarrow> Some (s, Some u)
      | None \<Rightarrow>
          if production e then Some (s, None)
          else
            (let devEmail = or_else (devAuthorEmail body) ''dev-commenter@local'' in
             case find (\<lambda>u. u_email u = devEmail) (users s) of
               Some u \<Rightarrow> Some (s, Some u)
             | None \<Rightarrow>
                 (let devRole = or_else (devAuthorRole body) ''student'' in
                  save_new_user e s
                    \<lparr>u_id = next_id s,
                     u_name = or_else (devAuthorName body)
                       (if devRole = ''faculty'' then ''Dev Faculty'' else ''Anonymous Student''),
                     u_email = devEmail,
                     u_role = devRole,
                     u_department = or_else (devAuthorDepartment body) ''General'',
                     u_year = (if devRole = ''student''
                               then Some (or_else (devAuthorYear body) ''2025'') else None),
                     u_isActive = True\<rparr>)))"

section \<open>routes/comments.js\<close>

text \<open>The body of POST /comments. An id field that is absent or the empty string (both
  falsy) is \<open>None\<close>. \<open>ObjectId.isValid\<close> and the cast that \<open>findById\<close> performs accept
  more spellings of an id than the 24 lower-case hexadecimal digits that
  \<open>ObjectId.toString()\<close> yields (upper-case digits, for one); \<open>noticeId_canonical\<close>
  tells whether the \<open>noticeId\<close> sent is in that spelling. It matters at line 146, which
  compares \<open>parentComment.notice.toString()\<close> with the string sent.\<close>

record comment_body = dev_fields +
  noticeId :: "reqid option"
  noticeId_canonical :: bool
  content :: "string option"
  parentCommentId :: "reqid option"

definition new_notification ::
  "oid \<Rightarrow> oid \<Rightarrow> string \<Rightarrow> string \<Rightarrow> oid option \<Rightarrow> oid option \<Rightarrow> notification" where
  "new_notification i uid ty msg rn rc =
     \<lparr>nt_id = i, nt_user = uid, nt_type = ty, nt_message = msg, nt_relatedNotice = rn,
      nt_relatedComment = rc, nt_isRead = False, nt_readAt = None\<rparr>"

text \<open>\<open>new Notification({...}).save()\<close>\<close>

definition save_new_notification ::
  "store \<Rightarrow> oid \<Rightarrow> string \<Rightarrow> string \<Rightarrow> oid option \<Rightarrow> oid option \<Rightarrow> store" where
  "save_new_notification s uid ty msg rn rc =
     s\<lparr>notifications := notifications s @ [new_notification (next_id s) uid ty msg rn rc],
       next_id := Suc (next_id s)\<rparr>"

text \<open>Lines 133-157: the parent is looked at after the new comment has been saved; the
  three early returns answer 400, 404 and 400. \<open>canonical\<close> is \<open>noticeId_canonical\<close> of
  the body.\<close>

definition attach_reply ::
  "store \<Rightarrow> comment \<Rightarrow> oid \<Rightarrow> bool \<Rightarrow> reqid option \<Rightarrow> response + store" where
  "attach_reply s cmt nid canonical pcid =
     (case pcid of
        None \<Rightarrow> Inr s
      | Some Malformed \<Rightarrow> Inl (reply 400 False ''Invalid parentCommentId'')
      | Some (ObjId p) \<Rightarrow>
          (case findById c_id (comments s) p of
             None \<Rightarrow> Inl (reply 404 False ''Parent comment not found'')
           | Some parentComment \<Rightarrow>
               if c_notice parentComment \<noteq> nid \<or> \<not> canonical
               then Inl (reply 400 False ''Parent comment does not belong to this notice'')
               else Inr (s\<lparr>comments :=
                            save_doc c_id
                              (parentComment\<lparr>c_replies := c_replies parentComment @ [c_id cmt]\<rparr>)
                              (comments s)\<rparr>)))"

text \<open>Lines 159-187; \<open>na\<close> is \<open>notice.author\<close> as \<open>populate('author')\<close> resolved it.\<close>

definition notify_notice_author ::
  "store \<Rightarrow> user option \<Rightarrow> user \<Rightarrow> notice \<Rightarrow> comment \<Rightarrow> store" where
  "notify_notice_author s na authorUser n cmt =
     (case na of
        None \<Rightarrow> s
      | Some a \<Rightarrow>
          if u_id a \<noteq> u_id authorUser
          then save_new_notification s (u_id a) ''comment''
                 (u_name authorUser @ '' commented on your notice: '' @ n_title n)
                 (Some (n_id n)) (Some (c_id cmt))
          else s)"

text \<open>Lines 189-223: guarded by \<open>comment.parentComment\<close>, the field of the new comment.\<close>

definition notify_parent_author :: "store \<Rightarrow> user \<Rightarrow> notice \<Rightarrow> comment \<Rightarrow> store" where
  "notify_parent_author s authorUser n cmt =
     (case c_parentComment cmt of
        None \<Rightarrow> s
      | Some p \<Rightarrow>
          (case findById c_id (comments s) p of
             None \<Rightarrow> s
           | Some parent \<Rightarrow>
               (case findById u_id (users s) (c_author parent) of
                  None \<Rightarrow> s
                | Some pa \<Rightarrow>
                    if u_id pa \<noteq> u_id authorUser
                    then save_new_notification s (u_id pa) ''comment''
                           (u_name authorUser @ '' replied to your comment on: '' @ n_title n)
                           (Some (n_id n)) (Some (c_id cmt))
                    else s)))"

text \<open>Lines 120-131: the comment is built from \<open>notice\<close>, \<open>author\<close> and \<open>content\<close> only
  (the other fields take the schema defaults) and saved at once.\<close>

definition new_comment :: "oid \<Rightarrow> oid \<Rightarrow> oid \<Rightarrow> string \<Rightarrow> comment" where
  "new_comment i nid aid txt =
     \<lparr>c_id = i, c_notice = nid, c_author = aid, c_content = trim txt,
      c_parentComment = None, c_replies = []\<rparr>"

text \<open>POST /comments\<close>

definition create_comment :: "env \<Rightarrow> store \<Rightarrow> bearer \<Rightarrow> comment_body \<Rightarrow> store \<times> response" where
  "create_comment e s b body =
     (case noticeId body of
        None \<Rightarrow> (s, reply 400 False ''noticeId is required'')
      | Some rid \<Rightarrow>
          (case content body of
             None \<Rightarrow> (s, reply 400 False ''content is required'')
           | Some txt \<Rightarrow>
               if trim txt = [] then (s, reply 400 False ''content is required'')
               else
                 (case rid of
                    Malformed \<Rightarrow> (s, reply 400 False ''Invalid noticeId'')
                  | ObjId nid \<Rightarrow>
                      (case findById n_id (notices s) nid of
                         None \<Rightarrow> (s, reply 404 False ''Notice not found'')
                       | Some n \<Rightarrow>
                           (case comment_author e s b body of
                              None \<Rightarrow> (s, reply 500 False ''Failed to add comment'')
                            | Some (s1, None) \<Rightarrow>
                                (s1, reply 401 False ''Access denied. No valid token provided.'')
                            | Some (s1, Some authorUser) \<Rightarrow>
                                (let cmt = new_comment (next_id s1) nid (u_id authorUser) txt;
                                     s2 = s1\<lparr>comments := comments s1 @ [cmt],
                                             next_id := Suc (next_id s1)\<rparr>
                                 in case attach_reply s2 cmt nid (noticeId_canonical body)
                                           (parentCommentId body) of
                                      Inl r \<Rightarrow> (s2, r)
                                    | Inr s3 \<Rightarrow>
                                        (let s4 = notify_notice_author s3
                                                    (findById u_id (users s) (n_author n))
                                                    authorUser n cmt;
                                             s5 = notify_parent_author s4 authorUser n cmt
                                         in (s5, \<lparr>code = 201, success = True,
                                                   message = ''Comment added successfully'',
                                                   payload = CommentData cmt\<rparr>))))))))"


section \<open>routes/notices.js: listing\<close>

text \<open>
  GET /notices builds a MongoDB filter document from the query string and from
  \<open>req.user\<close> (the viewer, when a middleware earlier in the pipeline has set it) and
  hands it to \<open>Notice.find\<close>. The filter document is the record \<open>query\<close>: a field of the
  JavaScript object that was never assigned is \<open>None\<close>. Assigning \<open>query.$or\<close> replaces
  what was there, as assigning a property does.
\<close>

record list_params =
  category :: "string option"
  department :: "string option"
  status :: "string option"
  search :: "string option"

datatype clause =
    TitleRegex string
  | ContentRegex string
  | TargetYearIn "string option list"

record query =
  q_isArchived :: bool
  q_category :: "string option"
  q_department_in :: "string list option"
  q_status :: "string option"
  q_or :: "clause list option"

text \<open>Lines 16-53.\<close>

definition build_query :: "list_params \<Rightarrow> user option \<Rightarrow> query" where
  "build_query rq req_user =
     (let q0 = \<lparr>q_isArchived = False, q_category = None, q_department_in = None,
                q_status = None, q_or = None\<rparr>;
          q1 = (if truthy (category rq) \<and> category rq \<noteq> Some ''all''
                then q0\<lparr>q_category := category rq\<rparr>
                else q0);
          q2 = (if truthy (department rq) \<and> department rq \<noteq> Some ''all''
                then q1\<lparr>q_department_in := Some [text_of (department rq), ''All Departments'']\<rparr>
                else
                  (case req_user of
                     None \<Rightarrow> q1
                   | Some u \<Rightarrow>
                       if u_role u = ''student'' \<or> u_role u = ''faculty''
                       then q1\<lparr>q_department_in := Some [u_department u, ''All Departments'']\<rparr>
                       else q1));
          q3 = (if truthy (status rq)
                then q2\<lparr>q_status := status rq\<rparr>
                else q2\<lparr>q_status := Some ''published''\<rparr>);
          q4 = (if truthy (search rq)
                then q3\<lparr>q_or := Some [TitleRegex (text_of (search rq)),
                                      ContentRegex (text_of (search rq))]\<rparr>
                else q3);
          q5 = (case req_user of
                  None \<Rightarrow> q4
                | Some u \<Rightarrow>
                    if u_role u = ''student'' \<and> truthy (u_year u)
                    then q4\<lparr>q_or := Some [TargetYearIn [None, Some [], u_year u]]\<rparr>
                    else q4)
      in q5)"







section \<open>routes/notices.js: views and acknowledgments\<close>

definition has_entry :: "oid \<Rightarrow> (oid \<times> time) list \<Rightarrow> bool" where
  "has_entry uid es = list_ex (\<lambda>e. fst e = uid) es"

text \<open>The entries a user has in a \<open>views\<close> or \<open>acknowledged\<close> list.\<close>

definition entries_of :: "oid \<Rightarrow> (oid \<times> time) list \<Rightarrow> (oid \<times> time) list" where
  "entries_of uid es = filter (\<lambda>e. fst e = uid) es"



text \<open>POST /notices/:id/acknowledge\<close>

definition acknowledge :: "time \<Rightarrow> store \<Rightarrow> bearer \<Rightarrow> reqid \<Rightarrow> store \<times> response" where
  "acknowledge now s b pid =
     (case authenticate s b of
        Inl r \<Rightarrow> (s, r)
      | Inr u \<Rightarrow>
          (case pid of
             Malformed \<Rightarrow> (s, reply 500 False ''Failed to acknowledge notice'')
           | ObjId i \<Rightarrow>
               (case findById n_id (notices s) i of
                  None \<Rightarrow> (s, reply 404 False ''Notice not found'')
                | Some n \<Rightarrow>
                    (let hasAcknowledged = has_entry (u_id u) (n_acknowledged n);
                         (s1, n1) =
                           (if \<not> hasAcknowledged
                            then (let n' = n\<lparr>n_acknowledged := n_acknowledged n @ [(u_id u, now)]\<rparr>
                                  in (s\<lparr>notices := save_doc n_id n' (notices s)\<rparr>, n'))
                            else (s, n))
                     in (s1, \<lparr>code = 200, success = True, message = ''Notice acknowledged'',
                              payload = AckCount (length (n_acknowledged n1))\<rparr>)))))"

section \<open>routes/notices.js: creating and deleting\<close>

record notice_body = dev_fields +
  b_title :: "string option"
  b_content :: "string option"
  b_category :: "string option"
  b_department :: "string option"
  b_targetYear :: "string option"
  b_priority :: "string option"
  b_status :: "string option"

text \<open>Lines 158-189.\<close>

definition notice_author ::
  "env \<Rightarrow> store \<Rightarrow> bearer \<Rightarrow> notice_body \<Rightarrow> (store \<times> user option) option" where
  "notice_author e s b body =
     (case token_user s b of
        Some u \<Rightarrow> Some (s, Some u)
      | None \<Rightarrow>
          if production e then Some (s, None)
          else
            (let devEmail = or_else (devAuthorEmail body) ''dev-admin@local'' in
             case find (\<lambda>u. u_email u = devEmail) (users s) of
               Some u \<Rightarrow> Some (s, Some u)
             | None \<Rightarrow>
                 save_new_user e s
                   \<lparr>u_id = next_id s,
                    u_name = or_else (devAuthorName body) ''Dev Admin'',
                    u_email = devEmail,
                    u_role = or_else (devAuthorRole body) ''admin'',
                    u_department = or_else (b_department body) ''All Departments'',
                    u_year = None,
                    u_isActive = True\<rparr>))"

text \<open>\<open>new Notice({...})\<close> with the defaults of models/Notice.js, and the validators that
  \<open>notice.save()\<close> runs: required strings must be non-empty, enumerated ones must be one
  of the listed values.\<close>

definition new_notice :: "oid \<Rightarrow> oid \<Rightarrow> notice_body \<Rightarrow> notice" where
  "new_notice i aid body =
     \<lparr>n_id = i,
      n_title = trim (case b_title body of None \<Rightarrow> [] | Some x \<Rightarrow> x),
      n_content = (case b_content body of None \<Rightarrow> [] | Some x \<Rightarrow> x),
      n_category = (case b_category body of None \<Rightarrow> [] | Some x \<Rightarrow> x),
      n_department = (case b_department body of None \<Rightarrow> [] | Some x \<Rightarrow> x),
      n_targetYear = b_targetYear body,
      n_author = aid,
      n_priority = (case b_priority body of None \<Rightarrow> ''medium'' | Some x \<Rightarrow> x),
      n_status = (case b_status body of None \<Rightarrow> ''published'' | Some x \<Rightarrow> x),
      n_views = [],
      n_acknowledged = [],
      n_isPinned = False,
      n_isArchived = False\<rparr>"

definition notice_validates :: "notice \<Rightarrow> bool" where
  "notice_validates n =
     (n_title n \<noteq> [] \<and> n_content n \<noteq> [] \<and> n_department n \<noteq> []
      \<and> n_category n \<in> set [''academic'', ''events'', ''exams'', ''circulars'']
      \<and> n_priority n \<in> set [''high'', ''medium'', ''low'']
      \<and> n_status n \<in> set [''published'', ''scheduled'', ''draft''])"

text \<open>\<open>Notification.insertMany\<close>: one document per element, each with a fresh id.\<close>

primrec insertMany_notifications ::
  "store \<Rightarrow> (oid \<Rightarrow> notification) list \<Rightarrow> store" where
  "insertMany_notifications s [] = s"
| "insertMany_notifications s (mk # mks) =
     insertMany_notifications
       (s\<lparr>notifications := notifications s @ [mk (next_id s)], next_id := Suc (next_id s)\<rparr>)
       mks"

text \<open>Lines 216-243: the users the notice is announced to.\<close>

definition targetUsers :: "store \<Rightarrow> notice_body \<Rightarrow> user list" where
  "targetUsers s body =
     (if b_department body = Some ''All Departments''
      then filter (\<lambda>u. u_role u = ''student'' \<and> u_isActive u) (users s)
      else filter (\<lambda>u. u_role u = ''student'' \<and> Some (u_department u) = b_department body
                        \<and> u_isActive u) (users s))"

text \<open>POST /notices\<close>

definition create_notice :: "env \<Rightarrow> store \<Rightarrow> bearer \<Rightarrow> notice_body \<Rightarrow> store \<times> response" where
  "create_notice e s b body =
     (case notice_author e s b body of
        None \<Rightarrow> (s, reply 500 False ''Failed to create notice'')
      | Some (s1, None) \<Rightarrow> (s1, reply 401 False ''Access denied. No valid token provided.'')
      | Some (s1, Some authorUser) \<Rightarrow>
          if u_role authorUser \<noteq> ''admin'' \<and> u_role authorUser \<noteq> ''faculty''
          then (s1, reply 403 False ''Access denied. Admin or Faculty only.'')
          else
            (let n = new_notice (next_id s1) (u_id authorUser) body in
             if \<not> notice_validates n
             then (s1, reply 500 False ''Failed to create notice'')
             else
               (let s2 = s1\<lparr>notices := notices s1 @ [n], next_id := Suc (next_id s1)\<rparr>;
                    s3 = (if b_status body = Some ''published''
                          then insertMany_notifications s2
                                 (map (\<lambda>u i. new_notification i (u_id u) ''new_notice''
                                          (''New '' @ text_of (b_category body) @ '' notice: ''
                                             @ text_of (b_title body))
                                          (Some (n_id n)) None)
                                    (targetUsers s2 body))
                          else s2)
                in (s3, \<lparr>code = 201, success = True, message = ''Notice created successfully'',
                         payload = NoticeData n\<rparr>))))"

text \<open>DELETE /notices/:id, behind \<open>authenticate\<close> and \<open>isAdminOrFaculty\<close>.\<close>

definition delete_notice :: "store \<Rightarrow> bearer \<Rightarrow> reqid \<Rightarrow> store \<times> response" where
  "delete_notice s b pid =
     (case authenticate s b of
        Inl r \<Rightarrow> (s, r)
      | Inr u \<Rightarrow>
          (case isAdminOrFaculty u of
             Some r \<Rightarrow> (s, r)
           | None \<Rightarrow>
               (case pid of
                  Malformed \<Rightarrow> (s, reply 500 False ''Failed to delete notice'')
                | ObjId i \<Rightarrow>
                    (case findById n_id (notices s) i of
                       None \<Rightarrow> (s, reply 404 False ''Notice not found'')
                     | Some n \<Rightarrow>
                         if n_author n \<noteq> u_id u \<and> u_role u \<noteq> ''admin''
                         then (s, reply 403 False ''You can only delete your own notices'')
                         else
                           (let s1 = s\<lparr>comments :=
                                        deleteMany (\<lambda>c. c_notice c = n_id n) (comments s)\<rparr>;
                                s2 = s1\<lparr>notifications :=
                                         deleteMany (\<lambda>m. nt_relatedNotice m = Some (n_id n))
                                           (notifications s1)\<rparr>;
                                s3 = s2\<lparr>notices := deleteOne n_id (n_id n) (notices s2)\<rparr>
                            in (s3, reply 200 True ''Notice deleted successfully''))))))"

section \<open>A small campus\<close>

text \<open>
  Concrete data in the shape of seeders/seedDatabase.js, for running the handlers: an
  administrator, a CSE faculty member, three active students and one deactivated
  student; two published notices; two comments; one notification.
\<close>

definition rajesh :: user where
  "rajesh = \<lparr>u_id = 1, u_name = ''Rajesh'', u_email = ''admin@vignan.edu'', u_role = ''admin'',
     u_department = ''Administration'', u_year = None, u_isActive = True\<rparr>"

definition sarah :: user where
  "sarah = \<lparr>u_id = 2, u_name = ''Sarah'', u_email = ''sarah@vignan.edu'', u_role = ''faculty'',
     u_department = ''CSE'', u_year = None, u_isActive = True\<rparr>"

definition rahul :: user where
  "rahul = \<lparr>u_id = 3, u_name = ''Rahul'', u_email = ''rahul@vignan.edu'', u_role = ''student'',
     u_department = ''CSE'', u_year = Some ''3rd Year'', u_isActive = True\<rparr>"

definition priya :: user where
  "priya = \<lparr>u_id = 4, u_name = ''Priya'', u_email = ''priya@vignan.edu'', u_role = ''student'',
     u_department = ''CSE'', u_year = Some ''3rd Year'', u_isActive = True\<rparr>"

definition arjun :: user where
  "arjun = \<lparr>u_id = 5, u_name = ''Arjun'', u_email = ''arjun@vignan.edu'', u_role = ''student'',
     u_department = ''ECE'', u_year = Some ''2nd Year'', u_isActive = True\<rparr>"

definition sneha :: user where
  "sneha = \<lparr>u_id = 6, u_name = ''Sneha'', u_email = ''sneha@vignan.edu'', u_role = ''student'',
     u_department = ''CSE'', u_year = Some ''4th Year'', u_isActive = False\<rparr>"

definition techfest :: notice where
  "techfest = \<lparr>n_id = 10, n_title = ''Annual Tech Fest'', n_content = ''Call for participation'',
     n_category = ''events'', n_department = ''CSE'', n_targetYear = Some ''3rd Year'',
     n_author = 2, n_priority = ''medium'', n_status = ''published'', n_views = [],
     n_acknowledged = [], n_isPinned = False, n_isArchived = False\<rparr>"

definition library :: notice where
  "library = \<lparr>n_id = 11, n_title = ''Library Hours Extended'', n_content = ''Open until 11 PM'',
     n_category = ''circulars'', n_department = ''All Departments'', n_targetYear = None,
     n_author = 1, n_priority = ''medium'', n_status = ''published'', n_views = [],
     n_acknowledged = [], n_isPinned = False, n_isArchived = False\<rparr>"

definition question :: comment where
  "question = \<lparr>c_id = 20, c_notice = 10, c_author = 3, c_content = ''More details?'',
     c_parentComment = None, c_replies = []\<rparr>"

definition thanks :: comment where
  "thanks = \<lparr>c_id = 21, c_notice = 11, c_author = 4, c_content = ''Thank you'',
     c_parentComment = None, c_replies = []\<rparr>"

definition ping :: notification where
  "ping = new_notification 30 2 ''comment'' ''Rahul commented on your notice: Annual Tech Fest''
     (Some 10) (Some 20)"

definition campus :: store where
  "campus = \<lparr>users = [rajesh, sarah, rahul, priya, arjun, sneha],
     notices = [techfest, library],
     comments = [question, thanks],
     notifications = [ping],
     next_id = 40\<rparr>"

text \<open>Modelled from the spec: the validators of models/User.js, which is not among the
  source files. The spec's data model gives a user one of the roles admin, faculty and
  student.\<close>

definition role_listed :: "user \<Rightarrow> bool" where
  "role_listed u = (u_role u = ''admin'' \<or> u_role u = ''faculty'' \<or> u_role u = ''student'')"

definition prod :: env where
  "prod = \<lparr>production = True, user_validates = role_listed\<rparr>"

definition dev :: env where
  "dev = \<lparr>production = False, user_validates = role_listed\<rparr>"







text \<open>Request bodies: two replies to Rahul's question (comment 20 on notice 10), one
  posted under the library notice 11 and one under the tech fest notice 10; and a notice
  for the CSE department, sent without and with a status.\<close>

definition reply_elsewhere :: comment_body where
  "reply_elsewhere = \<lparr>devAuthorEmail = None, devAuthorName = None, devAuthorRole = None,
     devAuthorDepartment = None, devAuthorYear = None,
     noticeId = Some (ObjId 11), noticeId_canonical = True, content = Some ''Me too'',
     parentCommentId = Some (ObjId 20)\<rparr>"

definition reply_to_question :: comment_body where
  "reply_to_question = \<lparr>devAuthorEmail = None, devAuthorName = None, devAuthorRole = None,
     devAuthorDepartment = None, devAuthorYear = None,
     noticeId = Some (ObjId 10), noticeId_canonical = True, content = Some ''Me too'',
     parentCommentId = Some (ObjId 20)\<rparr>"

definition exam_notice :: notice_body where
  "exam_notice = \<lparr>devAuthorEmail = None, devAuthorName = None, devAuthorRole = None,
     devAuthorDepartment = None, devAuthorYear = None,
     b_title = Some ''Exam Schedule'', b_content = Some ''Mid-term dates'',
     b_category = Some ''exams'', b_department = Some ''CSE'', b_targetYear = None,
     b_priority = None, b_status = None\<rparr>"

lemmas campus_simps = campus_def rajesh_def sarah_def rahul_def priya_def arjun_def
  sneha_def techfest_def library_def question_def thanks_def ping_def new_notification_def

section \<open>Facts about collections\<close>

lemma findById_SomeD: "findById key ds i = Some d \<Longrightarrow> key d = i \<and> d \<in> set ds"
  unfolding findById_def by (induction ds) (auto split: if_splits)

lemma findById_save_doc_same:
  "findById key ds (key d) = Some x \<Longrightarrow> findById key (save_doc key d ds) (key d) = Some d"
  unfolding findById_def save_doc_def by (induction ds) (auto split: if_splits)

lemma findById_save_doc_other:
  "key d \<noteq> j \<Longrightarrow> findById key (save_doc key d ds) j = findById key ds j"
  unfolding findById_def save_doc_def by (induction ds) auto

lemma findById_deleteOne_same: "findById key (deleteOne key i ds) i = None"
  unfolding findById_def deleteOne_def by (induction ds) auto


lemma code_reply [simp]: "code (reply c ok m) = c"
  by (simp add: reply_def)

lemma authenticate_Inl_code: "authenticate s b = Inl r \<Longrightarrow> code r = 401"
  by (auto simp: authenticate_def split: bearer.splits option.splits if_splits)

lemma isAdminOrFaculty_Some_code: "isAdminOrFaculty u = Some r \<Longrightarrow> code r = 403"
  by (auto simp: isAdminOrFaculty_def split: if_splits)

section \<open>Notifications are scoped to their recipient\<close>

lemma find_None_iff_no_match: "find P xs = None \<longleftrightarrow> \<not> list_ex P xs"
  by (induction xs) auto

lemma distinct_key_unique:
  "distinct (map key ds) \<Longrightarrow> x \<in> set ds \<Longrightarrow> y \<in> set ds \<Longrightarrow> key x = key y \<Longrightarrow> x = y"
  by (induction ds) (auto simp: image_iff)

lemma findOne_other_recipient:
  assumes "distinct (map nt_id (notifications s))"
    and "n \<in> set (notifications s)"
    and "nt_user n \<noteq> uid"
  shows "findOne_notification s (nt_id n) uid = None"
proof -
  have "\<not> list_ex (\<lambda>m. nt_id m = nt_id n \<and> nt_user m = uid) (notifications s)"
  proof
    assume "list_ex (\<lambda>m. nt_id m = nt_id n \<and> nt_user m = uid) (notifications s)"
    then obtain m where m: "m \<in> set (notifications s)" "nt_id m = nt_id n" "nt_user m = uid"
      by (auto simp: list_ex_iff)
    from distinct_key_unique[OF assms(1) m(1) assms(2) m(2)] have "m = n" .
    with m(3) assms(3) show False by simp
  qed
  then show ?thesis
    by (simp add: findOne_notification_def find_None_iff_no_match)
qed

lemma save_doc_keeps_others:
  "x \<in> set ds \<Longrightarrow> key x \<noteq> key d \<Longrightarrow> x \<in> set (save_doc key d ds)"
  by (auto simp: save_doc_def)

lemma deleteOne_keeps_others:
  "x \<in> set ds \<Longrightarrow> key x \<noteq> i \<Longrightarrow> x \<in> set (deleteOne key i ds)"
  by (simp add: deleteOne_def)

lemma findOne_notification_SomeD:
  "findOne_notification s i uid = Some m \<Longrightarrow>
     m \<in> set (notifications s) \<and> nt_id m = i \<and> nt_user m = uid"
  unfolding findOne_notification_def
  by (induction "notifications s" arbitrary: s) (auto simp: find_Some_iff in_set_conv_nth)

text \<open>
  Claim C10. A user who is authenticated as \<open>u\<close> and addresses a stored notification
  \<open>n\<close> whose recipient is another user gets the 404 "Notification not found" answer from
  both PUT /notifications/:id/read and DELETE /notifications/:id, and the store (so
  \<open>n\<close> itself) is left as it was. Whatever id \<open>u\<close> sends to either route, \<open>n\<close> is in
  the collection afterwards, unchanged: only notifications of \<open>u\<close> are marked or
  deleted. Notification ids are unique in the collection.
\<close>

theorem notification_of_other_user_not_found:
  assumes "authenticate s b = Inr u"
    and "distinct (map nt_id (notifications s))"
    and "n \<in> set (notifications s)"
    and "nt_user n \<noteq> u_id u"
  shows "mark_read now s b (ObjId (nt_id n)) = (s, reply 404 False ''Notification not found'')
       \<and> delete_notification s b (ObjId (nt_id n))
           = (s, reply 404 False ''Notification not found'')
       \<and> n \<in> set (notifications (fst (mark_read now s b pid)))
       \<and> n \<in> set (notifications (fst (delete_notification s b pid)))"
proof -
  have other: "nt_id n \<noteq> i" if "findOne_notification s i (u_id u) = Some m" for i m
  proof
    assume "nt_id n = i"
    with findOne_other_recipient[OF assms(2,3,4)] that show False by simp
  qed
  have 1: "n \<in> set (notifications (fst (mark_read now s b pid)))"
  proof (cases pid)
    case Malformed
    with assms show ?thesis by (simp add: mark_read_def)
  next
    case (ObjId i)
    show ?thesis
    proof (cases "findOne_notification s i (u_id u)")
      case None
      with ObjId assms show ?thesis by (simp add: mark_read_def)
    next
      case (Some m)
      from findOne_notification_SomeD[OF Some] other[OF Some] have "nt_id n \<noteq> nt_id m"
        by simp
      with ObjId Some assms show ?thesis
        by (simp add: mark_read_def save_doc_keeps_others)
    qed
  qed
  have 2: "n \<in> set (notifications (fst (delete_notification s b pid)))"
  proof (cases pid)
    case Malformed
    with assms show ?thesis by (simp add: delete_notification_def)
  next
    case (ObjId i)
    show ?thesis
    proof (cases "findOne_notification s i (u_id u)")
      case None
      with ObjId assms show ?thesis by (simp add: delete_notification_def)
    next
      case (Some m)
      from findOne_notification_SomeD[OF Some] other[OF Some] have "nt_id n \<noteq> nt_id m"
        by simp
      with ObjId Some assms show ?thesis
        by (simp add: delete_notification_def deleteOne_keeps_others)
    qed
  qed
  from assms(1) findOne_other_recipient[OF assms(2,3,4)] 1 2 show ?thesis
    by (simp add: mark_read_def delete_notification_def)
qed

theorem notification_of_other_user_not_found_witness:
  "authenticate campus (Token 3) = Inr rahul
   \<and> distinct (map nt_id (notifications campus))
   \<and> ping \<in> set (notifications campus)
   \<and> nt_user ping \<noteq> u_id rahul
   \<and> mark_read 7 campus (Token 3) (ObjId 30)
       = (campus, reply 404 False ''Notification not found'')
   \<and> delete_notification campus (Token 3) (ObjId 30)
       = (campus, reply 404 False ''Notification not found'')"
proof -
  have a: "authenticate campus (Token 3) = Inr rahul"
    by (simp add: authenticate_def findById_def campus_simps)
  have d: "distinct (map nt_id (notifications campus))"
    by (simp add: campus_simps)
  have m: "ping \<in> set (notifications campus)"
    by (simp add: campus_def)
  have r: "nt_user ping \<noteq> u_id rahul"
    by (simp add: campus_simps)
  have i: "nt_id ping = 30"
    by (simp add: campus_simps)
  from notification_of_other_user_not_found[OF a d m r, where now = 7 and pid = "ObjId 30"]
    a d m r i
  show ?thesis by simp
qed

section \<open>Deleting a notice\<close>

lemma delete_notice_success:
  assumes "delete_notice s b (ObjId i) = (s', r)" and "code r = 200"
  shows "\<exists>n. findById n_id (notices s) i = Some n
           \<and> s' = s\<lparr>comments := deleteMany (\<lambda>c. c_notice c = n_id n) (comments s),
                    notifications :=
                      deleteMany (\<lambda>m. nt_relatedNotice m = Some (n_id n)) (notifications s),
                    notices := deleteOne n_id (n_id n) (notices s)\<rparr>"
proof (cases "authenticate s b")
  case (Inl r0)
  with assms(1) have "r = r0" by (simp add: delete_notice_def)
  with authenticate_Inl_code[OF Inl] assms(2) show ?thesis by simp
next
  case (Inr u)
  show ?thesis
  proof (cases "isAdminOrFaculty u")
    case (Some r0)
    with Inr assms(1) have "r = r0" by (simp add: delete_notice_def)
    with isAdminOrFaculty_Some_code[OF Some] assms(2) show ?thesis by simp
  next
    case None
    show ?thesis
    proof (cases "findById n_id (notices s) i")
      case nf: None
      with Inr None assms show ?thesis by (auto simp: delete_notice_def)
    next
      case (Some n)
      with Inr None assms show ?thesis
        by (auto simp: delete_notice_def Let_def split: if_splits)
    qed
  qed
qed

text \<open>
  Claim C9. When DELETE /notices/:id answers 200 for notice \<open>i\<close>, the store it leaves
  holds no notice with id \<open>i\<close>, no comment whose \<open>notice\<close> is \<open>i\<close> and no notification
  whose \<open>relatedNotice\<close> is \<open>i\<close>.
\<close>

theorem delete_notice_cascades:
  assumes "delete_notice s b (ObjId i) = (s', r)" and "code r = 200"
  shows "findById n_id (notices s') i = None
       \<and> filter (\<lambda>c. c_notice c = i) (comments s') = []
       \<and> filter (\<lambda>m. nt_relatedNotice m = Some i) (notifications s') = []"
proof -
  from delete_notice_success[OF assms] obtain n
    where n: "findById n_id (notices s) i = Some n"
      and s': "s' = s\<lparr>comments := deleteMany (\<lambda>c. c_notice c = n_id n) (comments s),
                      notifications :=
                        deleteMany (\<lambda>m. nt_relatedNotice m = Some (n_id n)) (notifications s),
                      notices := deleteOne n_id (n_id n) (notices s)\<rparr>"
    by blast
  from findById_SomeD[OF n] have i: "n_id n = i" by simp
  show ?thesis
    by (simp add: s' i findById_deleteOne_same deleteMany_def)
qed

theorem delete_notice_cascades_witness:
  "delete_notice campus (Token 2) (ObjId 10)
     = (campus\<lparr>notices := [library], comments := [thanks], notifications := []\<rparr>,
        reply 200 True ''Notice deleted successfully'')
   \<and> findById n_id [library] 10 = None
   \<and> filter (\<lambda>c. c_notice c = 10) [thanks] = []
   \<and> filter (\<lambda>m. nt_relatedNotice m = Some 10) ([] :: notification list) = []"
proof -
  have e: "delete_notice campus (Token 2) (ObjId 10)
     = (campus\<lparr>notices := [library], comments := [thanks], notifications := []\<rparr>,
        reply 200 True ''Notice deleted successfully'')"
    by (simp add: delete_notice_def authenticate_def isAdminOrFaculty_def findById_def
        deleteMany_def deleteOne_def campus_simps)
  have c: "code (reply 200 True ''Notice deleted successfully'') = 200"
    by simp
  from delete_notice_cascades[OF e c] e show ?thesis by simp
qed

section \<open>Deleting a comment\<close>

lemma save_new_user_keeps:
  "save_new_user e s u = Some (s1, a) \<Longrightarrow>
     comments s1 = comments s \<and> notices s1 = notices s \<and> notifications s1 = notifications s"
  by (auto simp: save_new_user_def split: if_splits)

lemma comment_author_keeps:
  "comment_author e s b body = Some (s1, a) \<Longrightarrow>
     comments s1 = comments s \<and> notices s1 = notices s \<and> notifications s1 = notifications s"
  by (auto simp: comment_author_def Let_def dest: save_new_user_keeps
      split: option.splits if_splits)




section \<open>Viewing a notice\<close>

lemma has_entry_iff: "has_entry uid es \<longleftrightarrow> entries_of uid es \<noteq> []"
  by (induction es) (auto simp: has_entry_def entries_of_def)





section \<open>Acknowledging a notice\<close>

lemma authenticate_users: "users s1 = users s \<Longrightarrow> authenticate s1 b = authenticate s b"
  by (cases b) (simp_all add: authenticate_def)

lemma acknowledge_step:
  assumes "authenticate s b = Inr u" and "findById n_id (notices s) i = Some n"
  shows "acknowledge t s b (ObjId i) =
     (if has_entry (u_id u) (n_acknowledged n)
      then (s, \<lparr>code = 200, success = True, message = ''Notice acknowledged'',
                payload = AckCount (length (n_acknowledged n))\<rparr>)
      else (s\<lparr>notices :=
                save_doc n_id (n\<lparr>n_acknowledged := n_acknowledged n @ [(u_id u, t)]\<rparr>) (notices s)\<rparr>,
            \<lparr>code = 200, success = True, message = ''Notice acknowledged'',
             payload = AckCount (Suc (length (n_acknowledged n)))\<rparr>))"
  using assms by (simp add: acknowledge_def Let_def)

lemma distinct_users_card: "distinct (map fst es) \<Longrightarrow> card (fst ` set es) = length es"
  using distinct_card[of "map fst es"] by simp

lemma distinct_users_entries: "distinct (map fst es) \<Longrightarrow> length (entries_of uid es) \<le> 1"
  by (induction es) (auto simp: entries_of_def filter_empty_conv image_iff)

lemma has_entry_member: "has_entry uid es \<longleftrightarrow> uid \<in> fst ` set es"
  by (auto simp: has_entry_def list_ex_iff)

text \<open>
  Claim C5. Let \<open>u\<close> be authenticated, notice \<open>i\<close> be stored with at most one
  acknowledgment per user, and let \<open>u\<close> acknowledge it twice at times \<open>t1\<close> and \<open>t2\<close>.
  Both calls answer 200 and the second changes nothing. The notice's acknowledgment list
  afterwards is the list before, with the entry \<open>(u, t1)\<close> appended if \<open>u\<close> had none:
  every earlier entry is kept, \<open>u\<close> has exactly one entry, there is still at most one
  entry per user, and the users in the list are the users before together with \<open>u\<close>. The
  count both calls return is the number of these users.
\<close>

theorem acknowledged_once_and_counted:
  assumes "authenticate s b = Inr u"
    and "findById n_id (notices s) i = Some n"
    and "distinct (map fst (n_acknowledged n))"
    and "acknowledge t1 s b (ObjId i) = (s1, r1)"
    and "acknowledge t2 s1 b (ObjId i) = (s2, r2)"
  shows "code r1 = 200 \<and> code r2 = 200 \<and> s2 = s1 \<and> payload r2 = payload r1
       \<and> map_option (\<lambda>m. entries_of (u_id u) (n_acknowledged m)) (findById n_id (notices s2) i)
           = Some (if entries_of (u_id u) (n_acknowledged n) = [] then [(u_id u, t1)]
                   else entries_of (u_id u) (n_acknowledged n))
       \<and> map_option (\<lambda>m. length (entries_of (u_id u) (n_acknowledged m)))
           (findById n_id (notices s2) i) = Some 1
       \<and> map_option (\<lambda>m. AckCount (card (fst ` set (n_acknowledged m))))
           (findById n_id (notices s2) i) = Some (payload r2)
       \<and> map_option (\<lambda>m. distinct (map fst (n_acknowledged m)))
           (findById n_id (notices s2) i) = Some True
       \<and> map_option n_acknowledged (findById n_id (notices s2) i)
           = Some (if has_entry (u_id u) (n_acknowledged n) then n_acknowledged n
                   else n_acknowledged n @ [(u_id u, t1)])
       \<and> map_option (\<lambda>m. fst ` set (n_acknowledged m)) (findById n_id (notices s2) i)
           = Some (insert (u_id u) (fst ` set (n_acknowledged n)))
       \<and> payload r2 = AckCount (card (insert (u_id u) (fst ` set (n_acknowledged n))))"
proof -
  from findById_SomeD[OF assms(2)] have i: "n_id n = i" by simp
  let ?n' = "n\<lparr>n_acknowledged := n_acknowledged n @ [(u_id u, t1)]\<rparr>"
  note c = distinct_users_card[OF assms(3)]
  show ?thesis
  proof (cases "has_entry (u_id u) (n_acknowledged n)")
    case True
    with assms(4) acknowledge_step[OF assms(1,2), of t1]
    have 1: "s1 = s" "code r1 = 200" "payload r1 = AckCount (length (n_acknowledged n))"
      by auto
    with True assms(5) acknowledge_step[OF assms(1,2), of t2]
    have 2: "s2 = s" "code r2 = 200" "payload r2 = AckCount (length (n_acknowledged n))"
      by auto
    from True have ne: "entries_of (u_id u) (n_acknowledged n) \<noteq> []"
      by (simp add: has_entry_iff)
    with distinct_users_entries[OF assms(3), of "u_id u"]
    have l: "length (entries_of (u_id u) (n_acknowledged n)) = 1"
      by (cases "entries_of (u_id u) (n_acknowledged n)") auto
    from True have m: "insert (u_id u) (fst ` set (n_acknowledged n)) = fst ` set (n_acknowledged n)"
      by (auto simp: has_entry_member)
    from 1 2 ne assms(2,3) c l m True show ?thesis by simp
  next
    case False
    with assms(4) acknowledge_step[OF assms(1,2), of t1]
    have 1: "s1 = s\<lparr>notices := save_doc n_id ?n' (notices s)\<rparr>" "code r1 = 200"
      "payload r1 = AckCount (Suc (length (n_acknowledged n)))"
      by auto
    have a: "authenticate s1 b = Inr u"
      using assms(1) authenticate_users[of s1 s b] by (simp add: 1)
    have f: "findById n_id (notices s1) i = Some ?n'"
      using findById_save_doc_same[of n_id "notices s" ?n' n] assms(2) i by (simp add: 1)
    from False have e: "entries_of (u_id u) (n_acknowledged n) = []"
      by (simp add: has_entry_iff)
    then have e': "entries_of (u_id u) (n_acknowledged ?n') = [(u_id u, t1)]"
      by (simp add: entries_of_def)
    then have h: "has_entry (u_id u) (n_acknowledged ?n')"
      by (simp add: has_entry_iff)
    with assms(5) acknowledge_step[OF a f, of t2]
    have 2: "s2 = s1" "code r2 = 200" "payload r2 = AckCount (Suc (length (n_acknowledged n)))"
      by auto
    from e have d: "distinct (map fst (n_acknowledged ?n'))"
      using assms(3) by (auto simp: entries_of_def filter_empty_conv)
    from distinct_users_card[OF d]
    have c': "card (fst ` set (n_acknowledged ?n')) = Suc (length (n_acknowledged n))"
      by simp
    have m: "fst ` set (n_acknowledged ?n') = insert (u_id u) (fst ` set (n_acknowledged n))"
      by auto
    from c' m have c'': "card (insert (u_id u) (fst ` set (n_acknowledged n)))
                          = Suc (length (n_acknowledged n))"
      by simp
    from 1 2 f e e' d c' c'' m False show ?thesis by simp
  qed
qed

text \<open>Priya has acknowledged the tech fest notice; Rahul acknowledges it twice and is
  told 2 both times. Priya's entry is still there, followed by Rahul's first one.\<close>

theorem acknowledged_once_and_counted_witness:
  "authenticate (campus\<lparr>notices := [techfest\<lparr>n_acknowledged := [(4, 50)]\<rparr>, library]\<rparr>) (Token 3)
     = Inr rahul
   \<and> findById n_id [techfest\<lparr>n_acknowledged := [(4, 50)]\<rparr>, library] 10
       = Some (techfest\<lparr>n_acknowledged := [(4, 50)]\<rparr>)
   \<and> distinct (map fst [(4::nat, 50::nat)])
   \<and> acknowledge 100 (campus\<lparr>notices := [techfest\<lparr>n_acknowledged := [(4, 50)]\<rparr>, library]\<rparr>)
         (Token 3) (ObjId 10)
       = (campus\<lparr>notices := [techfest\<lparr>n_acknowledged := [(4, 50), (3, 100)]\<rparr>, library]\<rparr>,
          \<lparr>code = 200, success = True, message = ''Notice acknowledged'', payload = AckCount 2\<rparr>)
   \<and> acknowledge 200
         (campus\<lparr>notices := [techfest\<lparr>n_acknowledged := [(4, 50), (3, 100)]\<rparr>, library]\<rparr>)
         (Token 3) (ObjId 10)
       = (campus\<lparr>notices := [techfest\<lparr>n_acknowledged := [(4, 50), (3, 100)]\<rparr>, library]\<rparr>,
          \<lparr>code = 200, success = True, message = ''Notice acknowledged'', payload = AckCount 2\<rparr>)
   \<and> map_option (\<lambda>m. entries_of 3 (n_acknowledged m))
         (findById n_id [techfest\<lparr>n_acknowledged := [(4, 50), (3, 100)]\<rparr>, library] 10)
       = Some [(3, 100)]
   \<and> map_option (\<lambda>m. AckCount (card (fst ` set (n_acknowledged m))))
         (findById n_id [techfest\<lparr>n_acknowledged := [(4, 50), (3, 100)]\<rparr>, library] 10)
       = Some (AckCount 2)
   \<and> map_option n_acknowledged
         (findById n_id [techfest\<lparr>n_acknowledged := [(4, 50), (3, 100)]\<rparr>, library] 10)
       = Some ([(4, 50)] @ [(3, 100)])
   \<and> map_option (\<lambda>m. fst ` set (n_acknowledged m))
         (findById n_id [techfest\<lparr>n_acknowledged := [(4, 50), (3, 100)]\<rparr>, library] 10)
       = Some (insert 3 {4})
   \<and> AckCount 2 = AckCount (card (insert (3::nat) {4}))"
proof -
  let ?s0 = "campus\<lparr>notices := [techfest\<lparr>n_acknowledged := [(4, 50)]\<rparr>, library]\<rparr>"
  let ?s1 = "campus\<lparr>notices := [techfest\<lparr>n_acknowledged := [(4, 50), (3, 100)]\<rparr>, library]\<rparr>"
  let ?ok = "\<lparr>code = 200, success = True, message = ''Notice acknowledged'',
              payload = AckCount 2\<rparr>"
  have a: "authenticate ?s0 (Token 3) = Inr rahul"
    by (simp add: authenticate_def findById_def campus_simps)
  have f: "findById n_id (notices ?s0) 10 = Some (techfest\<lparr>n_acknowledged := [(4, 50)]\<rparr>)"
    by (simp add: findById_def campus_simps)
  have d: "distinct (map fst (n_acknowledged (techfest\<lparr>n_acknowledged := [(4, 50)]\<rparr>)))"
    by simp
  have k1: "acknowledge 100 ?s0 (Token 3) (ObjId 10) = (?s1, ?ok)"
    by (simp add: acknowledge_def authenticate_def findById_def has_entry_def save_doc_def
        Let_def campus_simps)
  have k2: "acknowledge 200 ?s1 (Token 3) (ObjId 10) = (?s1, ?ok)"
    by (simp add: acknowledge_def authenticate_def findById_def has_entry_def save_doc_def
        Let_def campus_simps)
  have u: "u_id rahul = 3"
    by (simp add: rahul_def)
  from acknowledged_once_and_counted[OF a f d k1 k2]
  have "map_option (\<lambda>m. entries_of 3 (n_acknowledged m))
          (findById n_id [techfest\<lparr>n_acknowledged := [(4, 50), (3, 100)]\<rparr>, library] 10)
        = Some [(3, 100)]
      \<and> map_option (\<lambda>m. AckCount (card (fst ` set (n_acknowledged m))))
          (findById n_id [techfest\<lparr>n_acknowledged := [(4, 50), (3, 100)]\<rparr>, library] 10)
        = Some (AckCount 2)
      \<and> map_option n_acknowledged
          (findById n_id [techfest\<lparr>n_acknowledged := [(4, 50), (3, 100)]\<rparr>, library] 10)
        = Some ([(4, 50)] @ [(3, 100)])
      \<and> map_option (\<lambda>m. fst ` set (n_acknowledged m))
          (findById n_id [techfest\<lparr>n_acknowledged := [(4, 50), (3, 100)]\<rparr>, library] 10)
        = Some (insert 3 {4})
      \<and> AckCount 2 = AckCount (card (insert (3::nat) {4}))"
    by (simp add: u entries_of_def has_entry_def)
  with a f k1 k2 show ?thesis by simp
qed

section \<open>Listing notices\<close>


lemma truthy_None: "\<not> truthy None"
  by (simp add: truthy_def given_def)





text \<open>For a student with a year the filter does not depend on the search term: the
  assignment of the year clause to \<open>query.$or\<close> replaces the search clauses.\<close>

lemma student_query_ignores_search:
  assumes "u_role u = ''student''" and "truthy (u_year u)"
  shows "build_query (rq\<lparr>search := x\<rparr>) (Some u) = build_query (rq\<lparr>search := None\<rparr>) (Some u)"
  using assms by (simp add: build_query_def Let_def truthy_None)


section \<open>Creating a comment\<close>

lemma message_reply [simp]: "message (reply c ok m) = m"
  by (simp add: reply_def)

lemma attach_reply_Inl:
  "attach_reply s cmt nid canonical pcid = Inl r \<Longrightarrow> code r = 400 \<or> code r = 404"
  by (auto simp: attach_reply_def split: option.splits reqid.splits if_splits)

lemma attach_reply_Inr:
  "attach_reply s cmt nid canonical pcid = Inr s3 \<Longrightarrow>
     notifications s3 = notifications s \<and> users s3 = users s \<and> next_id s3 = next_id s"
  by (auto simp: attach_reply_def split: option.splits reqid.splits if_splits)

lemma notify_parent_author_new_comment:
  "notify_parent_author s authorUser n (new_comment i nid aid txt) = s"
  by (simp add: notify_parent_author_def new_comment_def)

lemma notify_notice_author_cases:
  "notifications (notify_notice_author s na authorUser n cmt) = notifications s
   \<or> (\<exists>a. na = Some a \<and> u_id a \<noteq> u_id authorUser
          \<and> notifications (notify_notice_author s na authorUser n cmt)
              = notifications s @ [new_notification (next_id s) (u_id a) ''comment''
                   (u_name authorUser @ '' commented on your notice: '' @ n_title n)
                   (Some (n_id n)) (Some (c_id cmt))])"
  by (auto simp: notify_notice_author_def save_new_notification_def split: option.splits)

lemma create_comment_after_author:
  assumes "noticeId body = Some (ObjId nid)" and "content body = Some txt" and "trim txt \<noteq> []"
    and "findById n_id (notices s) nid = Some n"
    and "comment_author e s b body = Some (s1, Some authorUser)"
  shows "create_comment e s b body =
     (let cmt = new_comment (next_id s1) nid (u_id authorUser) txt;
          s2 = s1\<lparr>comments := comments s1 @ [cmt], next_id := Suc (next_id s1)\<rparr>
      in case attach_reply s2 cmt nid (noticeId_canonical body) (parentCommentId body) of
           Inl r \<Rightarrow> (s2, r)
         | Inr s3 \<Rightarrow>
             (notify_notice_author s3 (findById u_id (users s) (n_author n)) authorUser n cmt,
              \<lparr>code = 201, success = True, message = ''Comment added successfully'',
               payload = CommentData cmt\<rparr>))"
  using assms by (simp add: create_comment_def Let_def notify_parent_author_new_comment
      split: sum.splits)

lemma create_comment_saved_cases:
  assumes "create_comment e s b body = (s', r)"
  shows "(comments s' = comments s \<and> notifications s' = notifications s \<and> code r \<noteq> 201
          \<and> message r \<noteq> ''Parent comment does not belong to this notice'')
       \<or> (\<exists>nid txt n s1 authorUser.
             noticeId body = Some (ObjId nid) \<and> content body = Some txt \<and> trim txt \<noteq> []
             \<and> findById n_id (notices s) nid = Some n
             \<and> comment_author e s b body = Some (s1, Some authorUser))"
proof (cases "noticeId body")
  case None
  with assms show ?thesis by (auto simp: create_comment_def)
next
  case (Some rid)
  show ?thesis
  proof (cases "content body")
    case None
    with Some assms show ?thesis by (auto simp: create_comment_def)
  next
    case ct: (Some tx)
    show ?thesis
    proof (cases "trim tx = []")
      case True
      with Some ct assms show ?thesis by (auto simp: create_comment_def)
    next
      case False
      show ?thesis
      proof (cases rid)
        case Malformed
        with Some ct False assms show ?thesis by (auto simp: create_comment_def)
      next
        case (ObjId nid)
        show ?thesis
        proof (cases "findById n_id (notices s) nid")
          case None
          with Some ct False ObjId assms show ?thesis by (auto simp: create_comment_def)
        next
          case n: (Some n)
          show ?thesis
          proof (cases "comment_author e s b body")
            case None
            with Some ct False ObjId n assms show ?thesis by (auto simp: create_comment_def)
          next
            case sa: (Some sa)
            obtain s1 a where p: "sa = (s1, a)" by (cases sa)
            show ?thesis
            proof (cases a)
              case None
              with Some ct False ObjId n sa p assms comment_author_keeps[of e s b body s1 a]
              show ?thesis by (auto simp: create_comment_def)
            next
              case (Some authorUser)
              with \<open>noticeId body = Some rid\<close> ct False ObjId n sa p show ?thesis by auto
            qed
          qed
        qed
      qed
    qed
  qed
qed

text \<open>Whenever POST /comments answers that the parent belongs to another notice, the
  new comment is in the collection.\<close>

lemma foreign_parent_always_persisted:
  assumes "create_comment e s b body = (s', r)"
    and "message r = ''Parent comment does not belong to this notice''"
  shows "\<exists>cmt. comments s' = comments s @ [cmt] \<and> c_parentComment cmt = None"
proof -
  from create_comment_saved_cases[OF assms(1)]
  consider "message r \<noteq> ''Parent comment does not belong to this notice''"
    | nid tx n s1 authorUser where
      "noticeId body = Some (ObjId nid)" "content body = Some tx" "trim tx \<noteq> []"
      "findById n_id (notices s) nid = Some n"
      "comment_author e s b body = Some (s1, Some authorUser)"
    by blast
  then show ?thesis
  proof cases
    case 1
    with assms(2) show ?thesis by simp
  next
    case 2
    note ca = create_comment_after_author[OF 2]
    from comment_author_keeps[OF 2(5)] have k: "comments s1 = comments s" by simp
    let ?cmt = "new_comment (next_id s1) nid (u_id authorUser) tx"
    let ?s2 = "s1\<lparr>comments := comments s1 @ [?cmt], next_id := Suc (next_id s1)\<rparr>"
    show ?thesis
    proof (cases "attach_reply ?s2 ?cmt nid (noticeId_canonical body) (parentCommentId body)")
      case (Inl r0)
      with ca assms(1) have "s' = ?s2" by (simp add: Let_def)
      then show ?thesis by (simp add: k new_comment_def)
    next
      case (Inr s3)
      with ca assms show ?thesis by (simp add: Let_def)
    qed
  qed
qed


text \<open>POST /comments writes at most one notification, and its recipient is the author
  of the notice.\<close>

lemma create_comment_notifies_notice_author_only:
  assumes "create_comment e s b body = (s', r)"
  shows "notifications s' = notifications s
       \<or> (\<exists>m nid n. noticeId body = Some (ObjId nid) \<and> findById n_id (notices s) nid = Some n
             \<and> notifications s' = notifications s @ [m] \<and> nt_user m = n_author n)"
proof -
  from create_comment_saved_cases[OF assms]
  consider "notifications s' = notifications s"
    | nid tx n s1 authorUser where
      "noticeId body = Some (ObjId nid)" "content body = Some tx" "trim tx \<noteq> []"
      "findById n_id (notices s) nid = Some n"
      "comment_author e s b body = Some (s1, Some authorUser)"
    by blast
  then show ?thesis
  proof cases
    case 1
    then show ?thesis by simp
  next
    case 2
    note ca = create_comment_after_author[OF 2]
    from comment_author_keeps[OF 2(5)] have k: "notifications s1 = notifications s" by simp
    let ?cmt = "new_comment (next_id s1) nid (u_id authorUser) tx"
    let ?s2 = "s1\<lparr>comments := comments s1 @ [?cmt], next_id := Suc (next_id s1)\<rparr>"
    let ?na = "findById u_id (users s) (n_author n)"
    show ?thesis
    proof (cases "attach_reply ?s2 ?cmt nid (noticeId_canonical body) (parentCommentId body)")
      case (Inl r0)
      with ca assms have "s' = ?s2" by (simp add: Let_def)
      then show ?thesis by (simp add: k)
    next
      case (Inr s3)
      with ca assms have s': "s' = notify_notice_author s3 ?na authorUser n ?cmt"
        by (simp add: Let_def)
      from attach_reply_Inr[OF Inr] have k3: "notifications s3 = notifications s"
        by (simp add: k)
      from notify_notice_author_cases[of s3 ?na authorUser n ?cmt]
      show ?thesis
      proof
        assume "notifications (notify_notice_author s3 ?na authorUser n ?cmt) = notifications s3"
        then show ?thesis by (simp add: s' k3)
      next
        assume "\<exists>a. ?na = Some a \<and> u_id a \<noteq> u_id authorUser
          \<and> notifications (notify_notice_author s3 ?na authorUser n ?cmt)
              = notifications s3 @ [new_notification (next_id s3) (u_id a) ''comment''
                   (u_name authorUser @ '' commented on your notice: '' @ n_title n)
                   (Some (n_id n)) (Some (c_id ?cmt))]"
        then obtain a where a: "?na = Some a"
          and m: "notifications s' = notifications s @ [new_notification (next_id s3) (u_id a)
                   ''comment'' (u_name authorUser @ '' commented on your notice: '' @ n_title n)
                   (Some (n_id n)) (Some (c_id ?cmt))]"
          by (auto simp: s' k3)
        from findById_SomeD[OF a] have "u_id a = n_author n" by simp
        with m 2(1,4) show ?thesis by (simp add: new_notification_def)
      qed
    qed
  qed
qed

text \<open>
  Claim C1 says that a reply whose parentCommentId names a comment of a different notice
  is rejected with a validation outcome and that no comment is persisted. Priya posts
  under the library notice 11 a reply to Rahul's question, comment 20, which belongs to
  the tech fest notice 10. The answer is 400 "Parent comment does not belong to this
  notice", and the comment collection has grown by the new comment 40.
\<close>

theorem foreign_parent_reply_is_persisted:
  "create_comment prod campus (Token 4) reply_elsewhere
     = (campus\<lparr>comments := [question, thanks,
                  \<lparr>c_id = 40, c_notice = 11, c_author = 4, c_content = ''Me too'',
                   c_parentComment = None, c_replies = []\<rparr>],
               next_id := 41\<rparr>,
        reply 400 False ''Parent comment does not belong to this notice'')
   \<and> parentCommentId reply_elsewhere = Some (ObjId 20)
   \<and> noticeId reply_elsewhere = Some (ObjId 11)
   \<and> map_option c_notice (findById c_id (comments campus) 20) = Some 10
   \<and> comments campus = [question, thanks]"
  by code_simp

text \<open>
  Claim C2 says that a reply whose parent comment was written by someone else creates a
  second notification, for the parent comment's author. Priya replies under the tech
  fest notice 10 to Rahul's question, comment 20. The answer is 201; the one notification
  written is for Sarah, the author of the notice, and none is for Rahul. The stored
  reply has \<open>parentComment = None\<close>.
\<close>

theorem reply_does_not_notify_parent_author:
  "create_comment prod campus (Token 4) reply_to_question
     = (campus\<lparr>comments := [question\<lparr>c_replies := [40]\<rparr>, thanks,
                  \<lparr>c_id = 40, c_notice = 10, c_author = 4, c_content = ''Me too'',
                   c_parentComment = None, c_replies = []\<rparr>],
               notifications := [ping,
                  new_notification 41 2 ''comment''
                    ''Priya commented on your notice: Annual Tech Fest'' (Some 10) (Some 40)],
               next_id := 42\<rparr>,
        \<lparr>code = 201, success = True, message = ''Comment added successfully'',
         payload = CommentData
           \<lparr>c_id = 40, c_notice = 10, c_author = 4, c_content = ''Me too'',
            c_parentComment = None, c_replies = []\<rparr>\<rparr>)
   \<and> parentCommentId reply_to_question = Some (ObjId 20)
   \<and> map_option c_author (findById c_id (comments campus) 20) = Some (u_id rahul)
   \<and> token_user campus (Token 4) = Some priya
   \<and> u_id rahul \<noteq> u_id priya
   \<and> filter (\<lambda>m. nt_user m = u_id rahul)
        [ping, new_notification 41 2 ''comment''
                 ''Priya commented on your notice: Annual Tech Fest'' (Some 10) (Some 40)] = []"
  by code_simp

section \<open>Creating a notice\<close>

lemma insertMany_notifications_others:
  "users (insertMany_notifications s mks) = users s
   \<and> notices (insertMany_notifications s mks) = notices s
   \<and> comments (insertMany_notifications s mks) = comments s"
  by (induction mks arbitrary: s) auto

lemma insertMany_notifications_appends:
  "\<exists>ms. notifications
           (insertMany_notifications s
              (map (\<lambda>u i. new_notification i (u_id u) ty msg rn rc) us))
         = notifications s @ ms
       \<and> map nt_user ms = map u_id us
       \<and> list_all (\<lambda>m. nt_type m = ty \<and> nt_relatedNotice m = rn) ms"
proof (induction us arbitrary: s)
  case Nil
  then show ?case by simp
next
  case (Cons u us)
  let ?m = "new_notification (next_id s) (u_id u) ty msg rn rc"
  let ?s = "s\<lparr>notifications := notifications s @ [?m], next_id := Suc (next_id s)\<rparr>"
  from Cons.IH[of ?s] obtain ms where
    ms: "notifications (insertMany_notifications ?s
            (map (\<lambda>u i. new_notification i (u_id u) ty msg rn rc) us))
          = notifications ?s @ ms"
      "map nt_user ms = map u_id us"
      "list_all (\<lambda>m. nt_type m = ty \<and> nt_relatedNotice m = rn) ms"
    by blast
  have "notifications (insertMany_notifications s
            (map (\<lambda>u i. new_notification i (u_id u) ty msg rn rc) (u # us)))
          = notifications s @ (?m # ms)"
    using ms(1) by simp
  moreover have "map nt_user (?m # ms) = map u_id (u # us)"
    using ms(2) by (simp add: new_notification_def)
  moreover have "list_all (\<lambda>m. nt_type m = ty \<and> nt_relatedNotice m = rn) (?m # ms)"
    using ms(3) by (simp add: new_notification_def)
  ultimately show ?case by blast
qed

lemma notice_author_keeps:
  assumes "notice_author e s b body = Some (s1, a)"
  shows "notifications s1 = notifications s \<and> notices s1 = notices s
       \<and> (users s1 = users s \<or> (\<exists>u. a = Some u \<and> users s1 = users s @ [u]))"
  using assms
  by (auto simp: notice_author_def save_new_user_def Let_def split: option.splits if_splits)

lemma targetUsers_staff_author:
  assumes "notice_author e s b body = Some (s1, Some a)"
    and "u_role a = ''admin'' \<or> u_role a = ''faculty''"
  shows "targetUsers (s1\<lparr>notices := ns, next_id := k\<rparr>) body = targetUsers s body"
proof -
  from notice_author_keeps[OF assms(1)]
  have "users s1 = users s \<or> users s1 = users s @ [a]" by auto
  then show ?thesis
    using assms(2) by (auto simp: targetUsers_def)
qed

text \<open>The users a notice is announced to are active students, of the notice's
  department unless that is "All Departments".\<close>

lemma targetUsers_students:
  "list_all (\<lambda>u. u_role u = ''student'' \<and> u_isActive u
               \<and> (b_department body = Some ''All Departments''
                   \<or> Some (u_department u) = b_department body))
     (targetUsers s body)"
  by (auto simp: targetUsers_def list_all_iff)

lemma create_notice_created:
  assumes "create_notice e s b body = (s', r)" and "code r = 201"
  shows "\<exists>s1 a. notice_author e s b body = Some (s1, Some a)
           \<and> (u_role a = ''admin'' \<or> u_role a = ''faculty'')
           \<and> notice_validates (new_notice (next_id s1) (u_id a) body)
           \<and> payload r = NoticeData (new_notice (next_id s1) (u_id a) body)
           \<and> s' = (let n = new_notice (next_id s1) (u_id a) body;
                       s2 = s1\<lparr>notices := notices s1 @ [n], next_id := Suc (next_id s1)\<rparr>
                   in if b_status body = Some ''published''
                      then insertMany_notifications s2
                             (map (\<lambda>u i. new_notification i (u_id u) ''new_notice''
                                      (''New '' @ text_of (b_category body) @ '' notice: ''
                                         @ text_of (b_title body))
                                      (Some (n_id n)) None)
                                (targetUsers s2 body))
                      else s2)"
proof (cases "notice_author e s b body")
  case None
  with assms show ?thesis by (auto simp: create_notice_def)
next
  case (Some sa)
  obtain s1 a where p: "sa = (s1, a)" by (cases sa)
  show ?thesis
  proof (cases a)
    case None
    with Some p assms show ?thesis by (auto simp: create_notice_def)
  next
    case au: (Some authorUser)
    with Some p assms show ?thesis
      by (auto simp: create_notice_def Let_def split: if_splits)
  qed
qed

text \<open>A notice created with \<open>status: "published"\<close> in the request is announced by one
  \<open>new_notice\<close> notification per target user, in the order of the users.\<close>

lemma create_notice_published_announces:
  assumes "create_notice e s b body = (s', r)" and "code r = 201"
    and "b_status body = Some ''published''"
  shows "\<exists>n ms. payload r = NoticeData n \<and> n_status n = ''published''
           \<and> notifications s' = notifications s @ ms
           \<and> map nt_user ms = map u_id (targetUsers s body)
           \<and> list_all (\<lambda>m. nt_type m = ''new_notice'' \<and> nt_relatedNotice m = Some (n_id n)) ms"
proof -
  from create_notice_created[OF assms(1,2)] obtain s1 a where
    na: "notice_author e s b body = Some (s1, Some a)"
    and ro: "u_role a = ''admin'' \<or> u_role a = ''faculty''"
    and pl: "payload r = NoticeData (new_notice (next_id s1) (u_id a) body)"
    and s': "s' = (let n = new_notice (next_id s1) (u_id a) body;
                       s2 = s1\<lparr>notices := notices s1 @ [n], next_id := Suc (next_id s1)\<rparr>
                   in if b_status body = Some ''published''
                      then insertMany_notifications s2
                             (map (\<lambda>u i. new_notification i (u_id u) ''new_notice''
                                      (''New '' @ text_of (b_category body) @ '' notice: ''
                                         @ text_of (b_title body))
                                      (Some (n_id n)) None)
                                (targetUsers s2 body))
                      else s2)"
    by blast
  let ?n = "new_notice (next_id s1) (u_id a) body"
  let ?s2 = "s1\<lparr>notices := notices s1 @ [?n], next_id := Suc (next_id s1)\<rparr>"
  have t: "targetUsers ?s2 body = targetUsers s body"
    by (rule targetUsers_staff_author[OF na ro])
  from notice_author_keeps[OF na] have k: "notifications ?s2 = notifications s" by simp
  from insertMany_notifications_appends[of ?s2 "''new_notice''"
      "''New '' @ text_of (b_category body) @ '' notice: '' @ text_of (b_title body)"
      "Some (n_id ?n)" None "targetUsers s body"]
  obtain ms where "notifications s' = notifications s @ ms"
    "map nt_user ms = map u_id (targetUsers s body)"
    "list_all (\<lambda>m. nt_type m = ''new_notice'' \<and> nt_relatedNotice m = Some (n_id ?n)) ms"
    using assms(3) by (auto simp: s' Let_def t k)
  moreover have "n_status ?n = ''published''"
    using assms(3) by (simp add: new_notice_def)
  ultimately show ?thesis using pl by blast
qed

text \<open>Any other request writes no notification.\<close>

lemma create_notice_unpublished_silent:
  assumes "create_notice e s b body = (s', r)" and "b_status body \<noteq> Some ''published''"
  shows "notifications s' = notifications s"
proof (cases "notice_author e s b body")
  case None
  with assms show ?thesis by (auto simp: create_notice_def)
next
  case (Some sa)
  obtain s1 a where p: "sa = (s1, a)" by (cases sa)
  from notice_author_keeps[OF Some[unfolded p]] have k: "notifications s1 = notifications s"
    by simp
  from Some p assms k show ?thesis
    by (auto simp: create_notice_def Let_def split: option.splits if_splits)
qed

text \<open>
  Claim C6 says that a created notice whose status is "published" is announced by exactly
  one \<open>new_notice\<close> notification per target user. The administrator creates a CSE notice
  and sends no \<open>status\<close> field. The notice is stored with the schema's default status
  "published" and the answer is 201; its target users are Rahul and Priya, and no
  notification is written: the handler tests the \<open>status\<close> field of the request, not the
  status of the notice. The same request with \<open>status: "published"\<close> writes the two
  notifications.
\<close>

theorem default_status_notice_is_not_announced:
  "create_notice prod campus (Token 1) exam_notice
     = (campus\<lparr>notices := [techfest, library,
                  \<lparr>n_id = 40, n_title = ''Exam Schedule'', n_content = ''Mid-term dates'',
                   n_category = ''exams'', n_department = ''CSE'', n_targetYear = None,
                   n_author = 1, n_priority = ''medium'', n_status = ''published'',
                   n_views = [], n_acknowledged = [], n_isPinned = False,
                   n_isArchived = False\<rparr>],
               next_id := 41\<rparr>,
        \<lparr>code = 201, success = True, message = ''Notice created successfully'',
         payload = NoticeData
           \<lparr>n_id = 40, n_title = ''Exam Schedule'', n_content = ''Mid-term dates'',
            n_category = ''exams'', n_department = ''CSE'', n_targetYear = None,
            n_author = 1, n_priority = ''medium'', n_status = ''published'',
            n_views = [], n_acknowledged = [], n_isPinned = False, n_isArchived = False\<rparr>\<rparr>)
   \<and> b_status exam_notice = None
   \<and> targetUsers campus exam_notice = [rahul, priya]
   \<and> notifications campus = [ping]
   \<and> notifications (fst (create_notice prod campus (Token 1) exam_notice)) = [ping]
   \<and> notifications
        (fst (create_notice prod campus (Token 1) (exam_notice\<lparr>b_status := Some ''published''\<rparr>)))
       = [ping,
          new_notification 41 3 ''new_notice'' ''New exams notice: Exam Schedule'' (Some 40) None,
          new_notification 42 4 ''new_notice'' ''New exams notice: Exam Schedule'' (Some 40) None]"
  by code_simp

end
